theory Spec2Isabelle
  imports Main
begin

section \<open>Text\<close>

text \<open>
  The review script is Python: a \<^verbatim>\<open>str\<close> is a sequence of Unicode code points, and
  \<^verbatim>\<open>len\<close> and slicing count code points. A string is therefore a list of code points
  (natural numbers), not a list of bytes. \<open>asc\<close> reads an ASCII literal as such a string.
\<close>

type_synonym ustring = "nat list"

definition asc :: "string \<Rightarrow> ustring" where
  "asc s = map of_char s"

text \<open>
  \<^verbatim>\<open>str.lower()\<close>. The case mapping is written out for the ASCII letters; every other
  code point is left as it is (the full Unicode case table is not part of the model).
\<close>

definition lower_cp :: "nat \<Rightarrow> nat" where
  "lower_cp c = (if 65 \<le> c \<and> c \<le> 90 then c + 32 else c)"

definition lower :: "ustring \<Rightarrow> ustring" where
  "lower s = map lower_cp s"

text \<open>\<^verbatim>\<open>str.isspace()\<close> of one code point: the white space that \<^verbatim>\<open>str.strip()\<close> removes.\<close>

definition isspace :: "nat \<Rightarrow> bool" where
  "isspace c \<longleftrightarrow>
     (9 \<le> c \<and> c \<le> 13) \<or> (28 \<le> c \<and> c \<le> 32) \<or> c = 0x85 \<or> c = 0xA0 \<or> c = 0x1680 \<or>
     (0x2000 \<le> c \<and> c \<le> 0x200A) \<or> c = 0x2028 \<or> c = 0x2029 \<or> c = 0x202F \<or>
     c = 0x205F \<or> c = 0x3000"

definition lstrip :: "ustring \<Rightarrow> ustring" where
  "lstrip s = dropWhile isspace s"

definition rstrip :: "ustring \<Rightarrow> ustring" where
  "rstrip s = rev (dropWhile isspace (rev s))"

definition strip :: "ustring \<Rightarrow> ustring" where
  "strip s = rstrip (lstrip s)"

definition startswith :: "ustring \<Rightarrow> ustring \<Rightarrow> bool" where
  "startswith s p \<longleftrightarrow> take (length p) s = p"

definition endswith :: "ustring \<Rightarrow> ustring \<Rightarrow> bool" where
  "endswith s p \<longleftrightarrow> length p \<le> length s \<and> drop (length s - length p) s = p"

text \<open>\<^verbatim>\<open>str.find\<close>: the index of the first occurrence of \<open>sub\<close> in \<open>s\<close>, if there is one.\<close>

fun find_str :: "ustring \<Rightarrow> ustring \<Rightarrow> nat option" where
  "find_str [] sub = (if sub = [] then Some 0 else None)"
| "find_str (c # cs) sub =
     (if startswith (c # cs) sub then Some 0 else map_option Suc (find_str cs sub))"

text \<open>\<^verbatim>\<open>sub in s\<close>.\<close>

definition contains :: "ustring \<Rightarrow> ustring \<Rightarrow> bool" where
  "contains s sub \<longleftrightarrow> find_str s sub \<noteq> None"

text \<open>\<^verbatim>\<open>s.split(sep, 1)\<close> for a non-empty separator: at most one split, at the first occurrence.\<close>

definition split_once :: "ustring \<Rightarrow> ustring \<Rightarrow> ustring list" where
  "split_once s sep =
     (case find_str s sep of
        None \<Rightarrow> [s]
      | Some i \<Rightarrow> [take i s, drop (i + length sep) s])"

text \<open>\<^verbatim>\<open>sep.join(parts)\<close>.\<close>

fun join :: "ustring \<Rightarrow> ustring list \<Rightarrow> ustring" where
  "join sep [] = []"
| "join sep [x] = x"
| "join sep (x # y # ys) = x @ sep @ join sep (y # ys)"

section \<open>Instruction extraction\<close>

text \<open>
  Lines 101--106 of \<^verbatim>\<open>claude_review.py\<close>:
  \<^verbatim>\<open>
    user_instruction = ""
    if "@claude" in comment_body.lower():
        parts = comment_body.lower().split("@claude", 1)
        if len(parts) > 1:
            user_instruction = parts[1].strip()
  \<close>
\<close>

definition keyword :: ustring where
  "keyword = asc ''@claude''"

definition extract_instruction :: "ustring \<Rightarrow> ustring" where
  "extract_instruction comment_body =
     (if contains (lower comment_body) keyword then
        (let parts = split_once (lower comment_body) keyword in
         if length parts > 1 then strip (parts ! 1) else [])
      else [])"

section \<open>The world of one run\<close>

text \<open>
  What the script reads from outside: the process environment, the files it opens, the result
  of the one \<^verbatim>\<open>glob.glob\<close> call, and the answer of the language-model service.

  A path is in one of four states. \<open>Content t\<close>: the file opens and decodes, and \<open>t\<close> is the
  text that \<^verbatim>\<open>f.read()\<close> returns. \<open>Malformed t\<close>: the file opens, its bytes are not valid in
  the encoding, and \<open>t\<close> is what a read with \<^verbatim>\<open>errors='ignore'\<close> returns; a strict read raises
  \<^verbatim>\<open>UnicodeDecodeError\<close>. \<open>Unreadable m\<close>: the path exists and \<^verbatim>\<open>open\<close> raises \<^verbatim>\<open>OSError\<close>
  with message \<open>m\<close> (a directory, no permission). \<open>Absent\<close>: there is no such path.
\<close>

datatype file_state = Absent | Unreadable ustring | Malformed ustring | Content ustring

datatype error = FileNotFoundError ustring | OSError ustring | UnicodeDecodeError ustring

text \<open>One \<^verbatim>\<open>client.messages.create\<close> request, with the fields the script passes.\<close>

record request =
  api_key :: ustring
  model :: ustring
  max_tokens :: nat
  system :: ustring
  user_content :: ustring

text \<open>
  The service is an opaque boundary. \<open>Raised m\<close>: constructing the client, the request, or
  reading \<^verbatim>\<open>response.content[0].text\<close> raised an exception \<open>e\<close> with \<^verbatim>\<open>str(e)\<close> = \<open>m\<close>.
  \<open>Replied t\<close>: \<^verbatim>\<open>response.content[0].text\<close> is \<open>t\<close>.
\<close>

datatype api_result = Raised ustring | Replied ustring

record world =
  environ :: "ustring \<rightharpoonup> ustring"
  file_at :: "ustring \<Rightarrow> file_state"
  glob :: "ustring \<Rightarrow> ustring list"
  messages_create :: "request \<Rightarrow> api_result"

text \<open>\<^verbatim>\<open>os.path.exists\<close>.\<close>

definition path_exists :: "world \<Rightarrow> ustring \<Rightarrow> bool" where
  "path_exists w p \<longleftrightarrow> file_at w p \<noteq> Absent"

text \<open>\<^verbatim>\<open>open(p, 'r', encoding=...)\<close> followed by \<^verbatim>\<open>f.read()\<close>, with strict decoding.\<close>

definition read_strict :: "world \<Rightarrow> ustring \<Rightarrow> error + ustring" where
  "read_strict w p =
     (case file_at w p of
        Absent \<Rightarrow> Inl (FileNotFoundError p)
      | Unreadable m \<Rightarrow> Inl (OSError m)
      | Malformed t \<Rightarrow> Inl (UnicodeDecodeError p)
      | Content t \<Rightarrow> Inr t)"

text \<open>The same with \<^verbatim>\<open>errors='ignore'\<close>: undecodable bytes are dropped instead of raising.\<close>

definition read_lenient :: "world \<Rightarrow> ustring \<Rightarrow> error + ustring" where
  "read_lenient w p =
     (case file_at w p of
        Absent \<Rightarrow> Inl (FileNotFoundError p)
      | Unreadable m \<Rightarrow> Inl (OSError m)
      | Malformed t \<Rightarrow> Inr t
      | Content t \<Rightarrow> Inr t)"

text \<open>\<^verbatim>\<open>os.path.join\<close> of two components and \<^verbatim>\<open>os.path.basename\<close> (POSIX).\<close>

definition path_join :: "ustring \<Rightarrow> ustring \<Rightarrow> ustring" where
  "path_join a b =
     (if startswith b (asc ''/'') then b
      else if a = [] \<or> endswith a (asc ''/'') then a @ b
      else a @ asc ''/'' @ b)"

definition basename :: "ustring \<Rightarrow> ustring" where
  "basename p = rev (takeWhile (\<lambda>c. c \<noteq> 47) (rev p))"

section \<open>Knowledge loader\<close>

text \<open>
  \<^verbatim>\<open>load_ai_dev_kit_knowledge\<close>, lines 14--48. Each of its two loops appends to
  \<^verbatim>\<open>knowledge_parts\<close>; a file whose read raises is skipped (the \<^verbatim>\<open>except Exception\<close> branch
  prints a warning; console output is not modelled).
\<close>

definition ai_dev_kit_path :: ustring where
  "ai_dev_kit_path = asc ''/tmp/ai-dev-kit''"

definition priority_files :: "ustring list" where
  "priority_files =
     [asc ''CLAUDE.md'', asc ''docs/AI_QUICK_RULES.md'', asc ''docs/AI_DEVELOPER_GUIDE.md'']"

definition priority_part :: "ustring \<Rightarrow> ustring \<Rightarrow> ustring" where
  "priority_part rel_path content = asc ''## '' @ rel_path @ [10, 10] @ content @ [10]"

definition pattern_part :: "ustring \<Rightarrow> ustring \<Rightarrow> ustring" where
  "pattern_part rel_name content =
     asc ''## Pattern: '' @ rel_name @ [10, 10] @ content @ [10]"

fun load_priority :: "world \<Rightarrow> ustring list \<Rightarrow> ustring list \<Rightarrow> ustring list" where
  "load_priority w [] knowledge_parts = knowledge_parts"
| "load_priority w (rel_path # rest) knowledge_parts =
     (let full_path = path_join ai_dev_kit_path rel_path in
      if path_exists w full_path then
        (case read_strict w full_path of
           Inr content \<Rightarrow>
             load_priority w rest (knowledge_parts @ [priority_part rel_path content])
         | Inl e \<Rightarrow> load_priority w rest knowledge_parts)
      else load_priority w rest knowledge_parts)"

fun load_patterns :: "world \<Rightarrow> ustring list \<Rightarrow> ustring list \<Rightarrow> ustring list" where
  "load_patterns w [] knowledge_parts = knowledge_parts"
| "load_patterns w (pattern_file # rest) knowledge_parts =
     (case read_strict w pattern_file of
        Inr content \<Rightarrow>
          load_patterns w rest
            (knowledge_parts @ [pattern_part (basename pattern_file) content])
      | Inl e \<Rightarrow> load_patterns w rest knowledge_parts)"

definition patterns_dir :: ustring where
  "patterns_dir = path_join ai_dev_kit_path (asc ''docs/patterns'')"

definition knowledge_separator :: ustring where
  "knowledge_separator = [10] @ asc ''---'' @ [10]"

definition knowledge_parts_of :: "world \<Rightarrow> ustring list" where
  "knowledge_parts_of w =
     (let knowledge_parts = load_priority w priority_files [] in
      if path_exists w patterns_dir
      then load_patterns w (glob w (path_join patterns_dir (asc ''*.md''))) knowledge_parts
      else knowledge_parts)"

definition load_ai_dev_kit_knowledge :: "world \<Rightarrow> ustring" where
  "load_ai_dev_kit_knowledge w =
     (let knowledge_parts = knowledge_parts_of w in
      if knowledge_parts \<noteq> [] then join knowledge_separator knowledge_parts else [])"

section \<open>Diff loader\<close>

text \<open>
  \<^verbatim>\<open>load_pr_diff\<close>, lines 51--57. The \<^verbatim>\<open>open\<close> is not inside a \<^verbatim>\<open>try\<close>: when it raises,
  the exception leaves the function.
\<close>

definition diff_file :: ustring where
  "diff_file = asc ''/tmp/pr_diff.patch''"

definition load_pr_diff :: "world \<Rightarrow> error + ustring" where
  "load_pr_diff w =
     (if path_exists w diff_file then read_lenient w diff_file else Inr [])"

section \<open>Changed-file loader\<close>

text \<open>
  \<^verbatim>\<open>load_changed_files_content\<close>, lines 60--86. Iterating over a text file yields its lines,
  each with its line end, the last one possibly without.
\<close>

fun file_lines :: "ustring \<Rightarrow> ustring list" where
  "file_lines [] = []"
| "file_lines (c # cs) =
     (if c = 10 then [10] # file_lines cs
      else (case file_lines cs of [] \<Rightarrow> [[c]] | l # ls \<Rightarrow> (c # l) # ls))"

definition files_list :: ustring where
  "files_list = asc ''/tmp/changed_files.txt''"

definition listed_files :: "ustring \<Rightarrow> ustring list" where
  "listed_files text = map strip (filter (\<lambda>line. strip line \<noteq> []) (file_lines text))"

definition file_block :: "ustring \<Rightarrow> ustring \<Rightarrow> ustring" where
  "file_block filepath content =
     asc ''### '' @ filepath @ [10] @ asc ''```'' @ [10] @ content @ [10] @ asc ''```'' @ [10]"

definition game_file :: "ustring \<Rightarrow> bool" where
  "game_file filepath \<longleftrightarrow>
     startswith filepath (asc ''games/'') \<and>
     (endswith filepath (asc ''.lua'') \<or> endswith filepath (asc ''.json'') \<or>
      endswith filepath (asc ''.md''))"

fun read_changed :: "world \<Rightarrow> ustring list \<Rightarrow> ustring list \<Rightarrow> ustring list" where
  "read_changed w [] contents = contents"
| "read_changed w (filepath # rest) contents =
     (if game_file filepath then
        (if path_exists w filepath then
           (case read_lenient w filepath of
              Inr content \<Rightarrow> read_changed w rest (contents @ [file_block filepath content])
            | Inl e \<Rightarrow> read_changed w rest contents)
         else read_changed w rest contents)
      else read_changed w rest contents)"

definition load_changed_files_content :: "world \<Rightarrow> error + ustring" where
  "load_changed_files_content w =
     (if \<not> path_exists w files_list then Inr []
      else
        (case read_strict w files_list of
           Inl e \<Rightarrow> Inl e
         | Inr text \<Rightarrow> Inr (join [10] (read_changed w (listed_files text) []))))"

section \<open>Fixed texts\<close>

text \<open>
  The literal parts of the script's messages, code point by code point (the prompts are
  written in Chinese). Each f-string of the script is the concatenation of its literal parts
  and its interpolated values, in order.
\<close>

definition config_error_msg :: ustring where
  "config_error_msg =
   [0x274C] @
   asc '' **Error**: `ANTHROPIC_API_KEY` secret is not configured.'' @
   [10, 10] @
   asc ''Please add your Anthropic API key in repository Settings '' @
   [0x2192] @
   asc '' Secrets '' @
   [0x2192] @
   asc '' Actions.''"

definition system_prompt_head :: ustring where
  "system_prompt_head =
   [0x4F60, 0x662F, 0x4E00, 0x4E2A, 0x4E13, 0x4E1A, 0x7684] @
   asc '' UrhoX '' @
   [0x6E38, 0x620F, 0x5F15, 0x64CE] @
   asc '' Lua '' @
   [0x4EE3, 0x7801, 0x5BA1, 0x67E5, 0x4E13, 0x5BB6, 0x3002, 0x4F60, 0x7684, 0x4EFB] @
   [0x52A1, 0x662F, 0x5BA1, 0x67E5, 0x63D0, 0x4EA4, 0x5230] @
   asc '' awesome-urhox-games '' @
   [0x4ED3, 0x5E93, 0x7684, 0x6E38, 0x620F, 0x4EE3, 0x7801, 0x3002, 10, 10] @
   asc ''## '' @
   [0x4F60, 0x7684, 0x4E13, 0x4E1A, 0x77E5, 0x8BC6, 10, 10, 0x4EE5, 0x4E0B] @
   [0x662F] @
   asc '' UrhoX '' @
   [0x5F15, 0x64CE, 0x7684, 0x5F00, 0x53D1, 0x6587, 0x6863, 0x548C, 0x6700, 0x4F73] @
   [0x5B9E, 0x8DF5, 0xFF1A, 10, 10]"

definition knowledge_fallback :: ustring where
  "knowledge_fallback =
   [0xFF08, 0x77E5, 0x8BC6, 0x5E93, 0x52A0, 0x8F7D, 0x5931, 0x8D25, 0xFF0C, 0x8BF7] @
   [0x57FA, 0x4E8E, 0x901A, 0x7528] @
   asc '' Lua '' @
   [0x6700, 0x4F73, 0x5B9E, 0x8DF5, 0x8FDB, 0x884C, 0x5BA1, 0x67E5, 0xFF09]"

definition system_prompt_tail :: ustring where
  "system_prompt_tail =
   [10, 10] @
   asc ''## '' @
   [0x5BA1, 0x67E5, 0x6807, 0x51C6, 10, 10] @
   asc ''1. **'' @
   [0x4EE3, 0x7801, 0x8D28, 0x91CF] @
   asc ''**: Lua '' @
   [0x4EE3, 0x7801, 0x662F, 0x5426, 0x9075, 0x5FAA, 0x6700, 0x4F73, 0x5B9E, 0x8DF5] @
   [10] @
   asc ''2. **UrhoX API '' @
   [0x4F7F, 0x7528] @
   asc ''**: '' @
   [0x662F, 0x5426, 0x6B63, 0x786E, 0x4F7F, 0x7528] @
   asc '' UrhoX '' @
   [0x5F15, 0x64CE] @
   asc '' API'' @
   [10] @
   asc ''3. **'' @
   [0x6E38, 0x620F, 0x903B, 0x8F91] @
   asc ''**: '' @
   [0x6E38, 0x620F, 0x903B, 0x8F91, 0x662F, 0x5426, 0x5408, 0x7406, 0x3001, 0x662F] @
   [0x5426, 0x6709, 0x660E, 0x663E] @
   asc '' bug'' @
   [10] @
   asc ''4. **'' @
   [0x6027, 0x80FD] @
   asc ''**: '' @
   [0x662F, 0x5426, 0x6709, 0x6027, 0x80FD, 0x95EE, 0x9898, 0xFF08, 0x5982] @
   asc '' Update '' @
   [0x4E2D, 0x7684, 0x9891, 0x7E41, 0x5206, 0x914D, 0xFF09, 10] @
   asc ''5. **'' @
   [0x5B89, 0x5168, 0x6027] @
   asc ''**: '' @
   [0x662F, 0x5426, 0x6709, 0x5B89, 0x5168, 0x9690, 0x60A3, 10] @
   asc ''6. **'' @
   [0x9879, 0x76EE, 0x89C4, 0x8303] @
   asc ''**: '' @
   [0x662F, 0x5426, 0x7B26, 0x5408] @
   asc '' awesome-urhox-games '' @
   [0x7684, 0x9879, 0x76EE, 0x89C4, 0x8303, 0xFF08] @
   asc ''game.json'' @
   [0x3001] @
   asc ''README.md '' @
   [0x7B49, 0xFF09, 10, 10] @
   asc ''## '' @
   [0x8F93, 0x51FA, 0x683C, 0x5F0F, 10, 10, 0x8BF7, 0x7528, 0x4E2D, 0x6587] @
   [0x56DE, 0x590D, 0xFF0C, 0x683C, 0x5F0F, 0x5982, 0x4E0B, 0xFF1A, 10] @
   asc ''- '' @
   [0x4F7F, 0x7528] @
   asc '' emoji '' @
   [0x4F7F, 0x5BA1, 0x67E5, 0x66F4, 0x6613, 0x8BFB, 10] @
   asc ''- '' @
   [0x5206, 0x7C7B, 0x5217, 0x51FA, 0x95EE, 0x9898, 0xFF08, 0x4E25, 0x91CD] @
   asc '' '' @
   [0x1F534, 0x3001, 0x8B66, 0x544A] @
   asc '' '' @
   [0x1F7E1, 0x3001, 0x5EFA, 0x8BAE] @
   asc '' '' @
   [0x1F7E2, 0xFF09, 10] @
   asc ''- '' @
   [0x5BF9, 0x6BCF, 0x4E2A, 0x95EE, 0x9898, 0x7ED9, 0x51FA, 0x5177, 0x4F53, 0x7684] @
   [0x4EE3, 0x7801, 0x4F4D, 0x7F6E, 0x548C, 0x4FEE, 0x6539, 0x5EFA, 0x8BAE, 10] @
   asc ''- '' @
   [0x6700, 0x540E, 0x7ED9, 0x51FA, 0x603B, 0x4F53, 0x8BC4, 0x4EF7, 0x548C, 0x662F] @
   [0x5426, 0x5EFA, 0x8BAE, 0x5408, 0x5E76, 10]"

definition user_message_head :: ustring where
  "user_message_head =
   [0x8BF7, 0x5BA1, 0x67E5, 0x4EE5, 0x4E0B] @
   asc '' Pull Request #''"

definition user_message_after_number :: ustring where
  "user_message_after_number =
   asc '' '' @
   [0x7684, 0x4EE3, 0x7801, 0x53D8, 0x66F4, 0xFF1A, 10, 10] @
   asc ''## '' @
   [0x7528, 0x6237, 0x7279, 0x522B, 0x8981, 0x6C42, 10]"

definition instruction_fallback :: ustring where
  "instruction_fallback =
   [0xFF08, 0x65E0, 0x7279, 0x522B, 0x8981, 0x6C42, 0xFF0C, 0x8BF7, 0x8FDB, 0x884C] @
   [0x5168, 0x9762, 0x5BA1, 0x67E5, 0xFF09]"

definition user_message_before_diff :: ustring where
  "user_message_before_diff =
   [10, 10] @
   asc ''## PR Diff'' @
   [10] @
   asc ''```diff'' @
   [10]"

definition diff_fallback :: ustring where
  "diff_fallback =
   [0xFF08, 0x65E0, 0x6CD5, 0x83B7, 0x53D6] @
   asc '' diff'' @
   [0xFF09]"

definition user_message_before_files :: ustring where
  "user_message_before_files =
   [10] @
   asc ''```'' @
   [10, 10] @
   asc ''## '' @
   [0x53D8, 0x66F4, 0x6587, 0x4EF6, 0x5B8C, 0x6574, 0x5185, 0x5BB9, 10]"

definition files_fallback :: ustring where
  "files_fallback =
   [0xFF08, 0x65E0, 0x6E38, 0x620F, 0x76F8, 0x5173, 0x6587, 0x4EF6, 0x53D8, 0x66F4] @
   [0xFF09]"

definition user_message_tail :: ustring where
  "user_message_tail =
   [10, 10, 0x8BF7, 0x5F00, 0x59CB, 0x4EE3, 0x7801, 0x5BA1, 0x67E5, 0x3002] @
   [10]"

definition review_head :: ustring where
  "review_head =
   asc ''## '' @
   [0x1F916] @
   asc '' Claude Code Review'' @
   [10, 10] @
   asc ''> '' @
   [0x7531] @
   asc '' Claude AI '' @
   [0x81EA, 0x52A8, 0x751F, 0x6210, 0x7684, 0x4EE3, 0x7801, 0x5BA1, 0x67E5, 0x62A5] @
   [0x544A, 10] @
   asc ''> PR #''"

definition review_after_number :: ustring where
  "review_after_number =
   asc '' | '' @
   [0x89E6, 0x53D1, 0x8005] @
   asc '': @claude '' @
   [0x547D, 0x4EE4, 10, 10] @
   asc ''---'' @
   [10, 10]"

definition review_tail :: ustring where
  "review_tail =
   [10, 10] @
   asc ''---'' @
   [10] @
   asc ''<sub>'' @
   [0x1F517] @
   asc '' Powered by [Claude](https://anthropic.com) | '' @
   [0x77E5, 0x8BC6, 0x6765, 0x6E90] @
   asc '': [UrhoX AI Dev Kit](https://urhox-demo-platform.spark.xd.co'' @
   asc ''m/ai-dev-kit/pd/stable/ai-dev-kit.zip)</sub>'' @
   [10]"

definition error_head :: ustring where
  "error_head =
   asc ''## '' @
   [0x274C] @
   asc '' Claude Code Review Failed'' @
   [10, 10, 0x62B1, 0x6B49, 0xFF0C, 0x4EE3, 0x7801, 0x5BA1, 0x67E5, 0x8FC7] @
   [0x7A0B, 0x4E2D, 0x51FA, 0x73B0, 0x9519, 0x8BEF, 0xFF1A, 10, 10] @
   asc ''```'' @
   [10]"

definition error_tail :: ustring where
  "error_tail =
   [10] @
   asc ''```'' @
   [10, 10, 0x8BF7, 0x68C0, 0x67E5] @
   asc '' `ANTHROPIC_API_KEY` '' @
   [0x914D, 0x7F6E, 0x662F, 0x5426, 0x6B63, 0x786E, 0x3002, 10]"

section \<open>Prompts and documents\<close>

text \<open>
  Lines 114--155. A slice \<^verbatim>\<open>s[:n]\<close> is \<open>take n s\<close>; an empty string is false in a condition.
\<close>

definition system_prompt :: "ustring \<Rightarrow> ustring" where
  "system_prompt knowledge =
     system_prompt_head @
     (if knowledge \<noteq> [] then take 50000 knowledge else knowledge_fallback) @
     system_prompt_tail"

definition user_message :: "ustring \<Rightarrow> ustring \<Rightarrow> ustring \<Rightarrow> ustring \<Rightarrow> ustring" where
  "user_message pr_number user_instruction pr_diff changed_files =
     user_message_head @ pr_number @ user_message_after_number @
     (if user_instruction \<noteq> [] then user_instruction else instruction_fallback) @
     user_message_before_diff @
     (if pr_diff \<noteq> [] then take 30000 pr_diff else diff_fallback) @
     user_message_before_files @
     (if changed_files \<noteq> [] then take 20000 changed_files else files_fallback) @
     user_message_tail"

text \<open>Lines 172--183 and 191--200.\<close>

definition review_document :: "ustring \<Rightarrow> ustring \<Rightarrow> ustring" where
  "review_document pr_number review_content =
     review_head @ pr_number @ review_after_number @ review_content @ review_tail"

definition error_document :: "ustring \<Rightarrow> ustring" where
  "error_document str_e = error_head @ str_e @ error_tail"

section \<open>The run\<close>

text \<open>
  \<^verbatim>\<open>run_claude_review\<close>, lines 89--204, as a function from the world to what the run did:
  the files it wrote (path and content, in order), the requests it sent to the service, and
  how the process ended. \<open>Returned\<close>: the function returned, and the interpreter exits with
  status 0. \<open>SysExit n\<close>: \<^verbatim>\<open>sys.exit(n)\<close>. \<open>Uncaught e\<close>: the exception \<open>e\<close> left
  \<^verbatim>\<open>run_claude_review\<close>; the interpreter prints a traceback and exits with status 1.
  Writing the result file is taken to succeed.
\<close>

datatype finish = Returned | SysExit nat | Uncaught error

fun exit_status :: "finish \<Rightarrow> nat" where
  "exit_status Returned = 0"
| "exit_status (SysExit n) = n"
| "exit_status (Uncaught e) = 1"

record outcome =
  writes :: "(ustring \<times> ustring) list"
  requests :: "request list"
  finish :: finish

definition result_file :: ustring where
  "result_file = asc ''/tmp/review_result.md''"

definition model_id :: ustring where
  "model_id = asc ''claude-sonnet-4-20250514''"

text \<open>\<^verbatim>\<open>os.environ.get(key, default)\<close>.\<close>

definition environ_get :: "world \<Rightarrow> ustring \<Rightarrow> ustring \<Rightarrow> ustring" where
  "environ_get w key dflt = (case environ w key of None \<Rightarrow> dflt | Some v \<Rightarrow> v)"

text \<open>
  \<^verbatim>\<open>if not api_key\<close>: the variable is unset (\<^verbatim>\<open>None\<close>) or set to the empty string.
\<close>

definition no_api_key :: "world \<Rightarrow> bool" where
  "no_api_key w \<longleftrightarrow>
     (case environ w (asc ''ANTHROPIC_API_KEY'') of None \<Rightarrow> True | Some k \<Rightarrow> k = [])"

text \<open>The arguments of \<^verbatim>\<open>client.messages.create\<close>, lines 158--167.\<close>

definition review_request :: "world \<Rightarrow> ustring \<Rightarrow> ustring \<Rightarrow> request" where
  "review_request w pr_diff changed_files =
     (let pr_number = environ_get w (asc ''PR_NUMBER'') (asc ''unknown'');
          comment_body = environ_get w (asc ''COMMENT_BODY'') [];
          user_instruction = extract_instruction comment_body;
          knowledge = load_ai_dev_kit_knowledge w
      in \<lparr>api_key = environ_get w (asc ''ANTHROPIC_API_KEY'') [],
          model = model_id,
          max_tokens = 4096,
          system = system_prompt knowledge,
          user_content = user_message pr_number user_instruction pr_diff changed_files\<rparr>)"

definition run_claude_review :: "world \<Rightarrow> outcome" where
  "run_claude_review w =
     (if no_api_key w then
        \<lparr>writes = [(result_file, config_error_msg)], requests = [], finish = Returned\<rparr>
      else
        (let pr_number = environ_get w (asc ''PR_NUMBER'') (asc ''unknown'') in
         case load_pr_diff w of
           Inl e \<Rightarrow> \<lparr>writes = [], requests = [], finish = Uncaught e\<rparr>
         | Inr pr_diff \<Rightarrow>
             (case load_changed_files_content w of
                Inl e \<Rightarrow> \<lparr>writes = [], requests = [], finish = Uncaught e\<rparr>
              | Inr changed_files \<Rightarrow>
                  (let req = review_request w pr_diff changed_files in
                   case messages_create w req of
                     Replied review_content \<Rightarrow>
                       \<lparr>writes = [(result_file, review_document pr_number review_content)],
                        requests = [req], finish = Returned\<rparr>
                   | Raised str_e \<Rightarrow>
                       \<lparr>writes = [(result_file, error_document str_e)],
                        requests = [req], finish = SysExit 1\<rparr>))))"

section \<open>Notions used in the statements\<close>

text \<open>Whether a read returns, and the text it returns.\<close>

definition readable_strict :: "world \<Rightarrow> ustring \<Rightarrow> bool" where
  "readable_strict w p \<longleftrightarrow> (case read_strict w p of Inr t \<Rightarrow> True | Inl e \<Rightarrow> False)"

definition text_strict :: "world \<Rightarrow> ustring \<Rightarrow> ustring" where
  "text_strict w p = (case read_strict w p of Inr t \<Rightarrow> t | Inl e \<Rightarrow> [])"

definition readable_lenient :: "world \<Rightarrow> ustring \<Rightarrow> bool" where
  "readable_lenient w p \<longleftrightarrow> (case read_lenient w p of Inr t \<Rightarrow> True | Inl e \<Rightarrow> False)"

definition text_lenient :: "world \<Rightarrow> ustring \<Rightarrow> ustring" where
  "text_lenient w p = (case read_lenient w p of Inr t \<Rightarrow> t | Inl e \<Rightarrow> [])"

text \<open>
  Concrete worlds. In \<open>world_diff_is_directory\<close> the credential is set and the diff path
  exists and cannot be opened. In \<open>world_list_malformed\<close> the credential is set and the
  list of changed files does not decode.
\<close>

definition world_diff_is_directory :: world where
  "world_diff_is_directory =
     \<lparr>environ = [asc ''ANTHROPIC_API_KEY'' \<mapsto> asc ''key''],
      file_at = (\<lambda>p. if p = diff_file then Unreadable (asc ''Is a directory'') else Absent),
      glob = (\<lambda>p. []),
      messages_create = (\<lambda>r. Replied (asc ''ok''))\<rparr>"

definition world_list_malformed :: world where
  "world_list_malformed =
     \<lparr>environ = [asc ''ANTHROPIC_API_KEY'' \<mapsto> asc ''key''],
      file_at = (\<lambda>p. if p = files_list then Malformed (asc ''games/a.lua'') else Absent),
      glob = (\<lambda>p. []),
      messages_create = (\<lambda>r. Replied (asc ''ok''))\<rparr>"

text \<open>
  \<open>world_no_key\<close>: no credential, and files and a comment present.
  \<open>world_other_no_key\<close>: no credential either, everything else different.
\<close>

definition world_no_key :: world where
  "world_no_key =
     \<lparr>environ = [asc ''PR_NUMBER'' \<mapsto> asc ''12'', asc ''COMMENT_BODY'' \<mapsto> asc ''@claude hi''],
      file_at = (\<lambda>p. if p = diff_file then Content (asc ''+x'') else Absent),
      glob = (\<lambda>p. []),
      messages_create = (\<lambda>r. Replied (asc ''ok''))\<rparr>"

definition world_other_no_key :: world where
  "world_other_no_key =
     \<lparr>environ = [asc ''PR_NUMBER'' \<mapsto> asc ''99''],
      file_at = (\<lambda>p. if p = files_list then Content (asc ''games/a.lua'') else Absent),
      glob = (\<lambda>p. [asc ''/tmp/ai-dev-kit/docs/patterns/a.md'']),
      messages_create = (\<lambda>r. Raised (asc ''down''))\<rparr>"

text \<open>
  \<open>world_service_down\<close>: the credential is set, the comment does not mention the keyword,
  no input file exists, and the service raises.
\<close>

definition world_service_down :: world where
  "world_service_down =
     \<lparr>environ = [asc ''ANTHROPIC_API_KEY'' \<mapsto> asc ''key'',
                 asc ''COMMENT_BODY'' \<mapsto> asc ''please review''],
      file_at = (\<lambda>p. Absent),
      glob = (\<lambda>p. []),
      messages_create = (\<lambda>r. Raised (asc ''timeout''))\<rparr>"

text \<open>
  \<open>world_kit\<close>: of the three priority files the first and the third decode and the second
  does not; the patterns directory exists, and the glob matches one readable file and one
  that has gone.
\<close>

definition world_kit :: world where
  "world_kit =
     \<lparr>environ = Map.empty,
      file_at = (\<lambda>p.
        if p = asc ''/tmp/ai-dev-kit/CLAUDE.md'' then Content (asc ''A'')
        else if p = asc ''/tmp/ai-dev-kit/docs/AI_QUICK_RULES.md'' then Malformed (asc ''B'')
        else if p = asc ''/tmp/ai-dev-kit/docs/AI_DEVELOPER_GUIDE.md'' then Content (asc ''C'')
        else if p = asc ''/tmp/ai-dev-kit/docs/patterns'' then Unreadable (asc ''Is a directory'')
        else if p = asc ''/tmp/ai-dev-kit/docs/patterns/p.md'' then Content (asc ''P'')
        else Absent),
      glob = (\<lambda>p.
        if p = asc ''/tmp/ai-dev-kit/docs/patterns/*.md''
        then [asc ''/tmp/ai-dev-kit/docs/patterns/p.md'',
              asc ''/tmp/ai-dev-kit/docs/patterns/gone.md'']
        else []),
      messages_create = (\<lambda>r. Replied [])\<rparr>"

text \<open>
  \<open>world_games\<close>: the list names a game script, a blank line, a file outside \<open>games/\<close> (with
  spaces around it), a game file with another extension, a game file that is a directory,
  and a game configuration.
\<close>

definition world_games :: world where
  "world_games =
     \<lparr>environ = Map.empty,
      file_at = (\<lambda>p.
        if p = files_list then
          Content (asc ''games/a.lua'' @ [10, 10] @ asc '' README.md '' @ [10] @
                   asc ''games/b.txt'' @ [10] @ asc ''games/d.md'' @ [10] @ asc ''games/c.json'')
        else if p = asc ''games/a.lua'' then Content (asc ''x=1'')
        else if p = asc ''README.md'' then Content (asc ''hi'')
        else if p = asc ''games/b.txt'' then Content (asc ''b'')
        else if p = asc ''games/d.md'' then Unreadable (asc ''Is a directory'')
        else if p = asc ''games/c.json'' then Content (asc ''{}'')
        else Absent),
      glob = (\<lambda>p. []),
      messages_create = (\<lambda>r. Replied [])\<rparr>"

section \<open>Properties of the text operations\<close>

lemma find_str_occurs:
  "find_str s sub = Some i \<Longrightarrow> i + length sub \<le> length s \<and> take (length sub) (drop i s) = sub"
proof (induction s arbitrary: i)
  case Nil
  then show ?case by (simp split: if_splits)
next
  case (Cons c cs)
  show ?case
  proof (cases "startswith (c # cs) sub")
    case True
    with Cons.prems have "i = 0" by simp
    moreover from True have "take (length sub) (c # cs) = sub"
      by (simp add: startswith_def)
    moreover from this have "min (length sub) (length (c # cs)) = length sub"
      using length_take [of "length sub" "c # cs"] by simp
    then have "length sub \<le> length (c # cs)"
      by linarith
    ultimately show ?thesis by simp
  next
    case False
    with Cons.prems obtain j where j: "find_str cs sub = Some j" "i = Suc j"
      by auto
    from Cons.IH [OF j(1)] j(2) show ?thesis by simp
  qed
qed

lemma find_str_first:
  "find_str s sub = Some i \<Longrightarrow> j < i \<Longrightarrow> take (length sub) (drop j s) \<noteq> sub"
proof (induction s arbitrary: i j)
  case Nil
  then show ?case by (simp split: if_splits)
next
  case (Cons c cs)
  show ?case
  proof (cases "startswith (c # cs) sub")
    case True
    with Cons.prems show ?thesis by simp
  next
    case False
    with Cons.prems obtain k where k: "find_str cs sub = Some k" "i = Suc k"
      by auto
    show ?thesis
    proof (cases j)
      case 0
      with False show ?thesis by (simp add: startswith_def)
    next
      case (Suc j')
      with Cons.prems k have "j' < k" by simp
      from Cons.IH [OF k(1) this] Suc show ?thesis by simp
    qed
  qed
qed

lemma find_str_none:
  "find_str s sub = None \<Longrightarrow> take (length sub) (drop j s) \<noteq> sub"
proof (induction s arbitrary: j)
  case Nil
  then show ?case by (auto split: if_splits)
next
  case (Cons c cs)
  from Cons.prems have ns: "\<not> startswith (c # cs) sub" and r: "find_str cs sub = None"
    by (auto split: if_splits)
  show ?case
  proof (cases j)
    case 0
    with ns show ?thesis by (simp add: startswith_def)
  next
    case (Suc j')
    with Cons.IH [OF r, of j'] show ?thesis by simp
  qed
qed

lemma length_lower [simp]: "length (lower s) = length s"
  by (simp add: lower_def)

lemma length_keyword [simp]: "length keyword = 7"
  by (simp add: keyword_def asc_def)

text \<open>
  What the extraction computes, for every comment body: the trimmed remainder of the
  lowered body after the first occurrence of the keyword in the lowered body.
\<close>

lemma extract_instruction_lowered:
  "extract_instruction body =
     (case find_str (lower body) keyword of
        None \<Rightarrow> []
      | Some i \<Rightarrow> strip (drop (i + 7) (lower body)))"
  by (simp add: extract_instruction_def contains_def split_once_def split: option.splits)

lemma extract_instruction_no_keyword:
  "\<not> contains (lower body) keyword \<Longrightarrow> extract_instruction body = []"
  by (simp add: extract_instruction_def)

section \<open>Properties of the loaders\<close>

text \<open>
  Each loop appends, in the order of the list it walks, one part for every file whose read
  did not raise, and nothing for the others.
\<close>

lemma not_exists_not_strict: "\<not> path_exists w p \<Longrightarrow> \<not> readable_strict w p"
  by (simp add: path_exists_def readable_strict_def read_strict_def)

lemma not_exists_not_lenient: "\<not> path_exists w p \<Longrightarrow> \<not> readable_lenient w p"
  by (simp add: path_exists_def readable_lenient_def read_lenient_def)

lemma load_priority_parts:
  "load_priority w ps acc =
     acc @ map (\<lambda>p. priority_part p (text_strict w (path_join ai_dev_kit_path p)))
            (filter (\<lambda>p. readable_strict w (path_join ai_dev_kit_path p)) ps)"
proof (induction ps arbitrary: acc)
  case Nil
  show ?case by simp
next
  case (Cons p ps)
  show ?case
  proof (cases "path_exists w (path_join ai_dev_kit_path p)")
    case False
    with Cons.IH [of acc] not_exists_not_strict [OF False] show ?thesis by simp
  next
    case True
    show ?thesis
    proof (cases "read_strict w (path_join ai_dev_kit_path p)")
      case (Inl e)
      with True Cons.IH [of acc] show ?thesis
        by (simp add: readable_strict_def)
    next
      case (Inr t)
      with True Cons.IH [of "acc @ [priority_part p t]"] show ?thesis
        by (simp add: readable_strict_def text_strict_def)
    qed
  qed
qed

lemma load_patterns_parts:
  "load_patterns w fs acc =
     acc @ map (\<lambda>f. pattern_part (basename f) (text_strict w f))
            (filter (readable_strict w) fs)"
proof (induction fs arbitrary: acc)
  case Nil
  show ?case by simp
next
  case (Cons f fs)
  show ?case
  proof (cases "read_strict w f")
    case (Inl e)
    with Cons.IH [of acc] show ?thesis by (simp add: readable_strict_def)
  next
    case (Inr t)
    with Cons.IH [of "acc @ [pattern_part (basename f) t]"] show ?thesis
      by (simp add: readable_strict_def text_strict_def)
  qed
qed

lemma read_changed_blocks:
  "read_changed w fs acc =
     acc @ map (\<lambda>p. file_block p (text_lenient w p))
            (filter (\<lambda>p. game_file p \<and> readable_lenient w p) fs)"
proof (induction fs arbitrary: acc)
  case Nil
  show ?case by simp
next
  case (Cons f fs)
  show ?case
  proof (cases "game_file f \<and> path_exists w f")
    case False
    with Cons.IH [of acc] not_exists_not_lenient [of w f] show ?thesis by auto
  next
    case True
    show ?thesis
    proof (cases "read_lenient w f")
      case (Inl e)
      with True Cons.IH [of acc] show ?thesis by (simp add: readable_lenient_def)
    next
      case (Inr t)
      with True Cons.IH [of "acc @ [file_block f t]"] show ?thesis
        by (simp add: readable_lenient_def text_lenient_def)
    qed
  qed
qed

lemma listed_files_trimmed:
  "listed_files text = filter (\<lambda>l. l \<noteq> []) (map strip (file_lines text))"
  by (simp add: listed_files_def filter_map comp_def)

section \<open>Properties of the review run\<close>

text \<open>
  C1. The claim: when the comment body contains the keyword, matched without regard to case,
  the instruction is the trimmed remainder of the comment text after the first match;
  otherwise it is empty. The script splits the lowered body, not the body, so the
  instruction it extracts is the lowered remainder: for the body \<open>@claude Fix Main.lua\<close> it
  is \<open>fix main.lua\<close>, while the trimmed remainder of the comment text is \<open>Fix Main.lua\<close>.
\<close>

theorem extract_instruction_lowers_text:
  "contains (lower (asc ''@claude Fix Main.lua'')) keyword \<and>
   extract_instruction (asc ''@claude Fix Main.lua'') = asc ''fix main.lua'' \<and>
   strip (drop 7 (asc ''@claude Fix Main.lua'')) = asc ''Fix Main.lua''"
  by (simp add: extract_instruction_def asc_def lower_def lower_cp_def contains_def
      keyword_def startswith_def split_once_def strip_def lstrip_def rstrip_def isspace_def)

text \<open>
  C2. The claim: each of the three loaders returns an empty or partial result when a source
  is missing or unreadable, and only the model invocation may abort the run. The diff loader
  opens its file outside any \<^verbatim>\<open>try\<close>: when the diff path exists and cannot be opened, the
  exception leaves the loader and the run, no document is written and no request is sent.
  The changed-file loader does the same when the list file does not decode.
\<close>

theorem unreadable_input_aborts_run:
  "load_pr_diff world_diff_is_directory = Inl (OSError (asc ''Is a directory'')) \<and>
   run_claude_review world_diff_is_directory =
     \<lparr>writes = [], requests = [], finish = Uncaught (OSError (asc ''Is a directory''))\<rparr> \<and>
   load_changed_files_content world_list_malformed = Inl (UnicodeDecodeError files_list) \<and>
   run_claude_review world_list_malformed =
     \<lparr>writes = [], requests = [], finish = Uncaught (UnicodeDecodeError files_list)\<rparr>"
  by (simp add: run_claude_review_def no_api_key_def load_pr_diff_def
      load_changed_files_content_def path_exists_def read_lenient_def read_strict_def
      world_diff_is_directory_def world_list_malformed_def diff_file_def files_list_def asc_def)

text \<open>
  C4. When the variable \<open>ANTHROPIC_API_KEY\<close> is absent, the run writes the fixed
  configuration-error text to the result path, sends no request, and exits with status 0.
\<close>

theorem missing_key_config_error:
  assumes "environ w (asc ''ANTHROPIC_API_KEY'') = None"
  shows "writes (run_claude_review w) = [(result_file, config_error_msg)] \<and>
         requests (run_claude_review w) = [] \<and>
         exit_status (finish (run_claude_review w)) = 0"
  using assms by (simp add: run_claude_review_def no_api_key_def)

theorem missing_key_config_error_witness:
  "environ world_no_key (asc ''ANTHROPIC_API_KEY'') = None \<and>
   writes (run_claude_review world_no_key) = [(result_file, config_error_msg)] \<and>
   requests (run_claude_review world_no_key) = [] \<and>
   exit_status (finish (run_claude_review world_no_key)) = 0"
proof -
  have h: "environ world_no_key (asc ''ANTHROPIC_API_KEY'') = None"
    by (simp add: world_no_key_def asc_def)
  from missing_key_config_error [OF h] h show ?thesis by simp
qed

text \<open>
  C10. Two runs without the credential write the same document, whatever the knowledge
  directory, the diff, the list of changed files, the comment body and the pull-request
  number are: the whole outcome is the same.
\<close>

theorem missing_key_output_constant:
  assumes "environ w (asc ''ANTHROPIC_API_KEY'') = None"
      and "environ w' (asc ''ANTHROPIC_API_KEY'') = None"
  shows "run_claude_review w = run_claude_review w'"
  using assms by (simp add: run_claude_review_def no_api_key_def)

theorem missing_key_output_constant_witness:
  "environ world_no_key (asc ''ANTHROPIC_API_KEY'') = None \<and>
   environ world_other_no_key (asc ''ANTHROPIC_API_KEY'') = None \<and>
   environ world_no_key (asc ''PR_NUMBER'') \<noteq> environ world_other_no_key (asc ''PR_NUMBER'') \<and>
   run_claude_review world_no_key = run_claude_review world_other_no_key"
proof -
  have h: "environ world_no_key (asc ''ANTHROPIC_API_KEY'') = None"
    by (simp add: world_no_key_def asc_def)
  have h': "environ world_other_no_key (asc ''ANTHROPIC_API_KEY'') = None"
    by (simp add: world_other_no_key_def asc_def)
  have d: "environ world_no_key (asc ''PR_NUMBER'') \<noteq> environ world_other_no_key (asc ''PR_NUMBER'')"
    by (simp add: world_no_key_def world_other_no_key_def asc_def)
  from missing_key_output_constant [OF h h'] h h' d show ?thesis by simp
qed

text \<open>
  C3. A knowledge text of more than 50,000 characters enters the system prompt as its first
  50,000 characters; a diff of more than 30,000 characters and a changed-file text of more
  than 20,000 characters enter the user message as their first 30,000 and 20,000 characters.
  Each limit looks only at its own text and counts characters, and nothing is put where
  the tail was cut: the fixed text of the template follows at once.
\<close>

theorem truncation_limits:
  "(50000 < length knowledge \<longrightarrow>
      system_prompt knowledge =
        system_prompt_head @ take 50000 knowledge @ system_prompt_tail \<and>
      length (take 50000 knowledge) = 50000) \<and>
   (30000 < length pr_diff \<longrightarrow>
      user_message n i pr_diff c =
        user_message_head @ n @ user_message_after_number @
        (if i \<noteq> [] then i else instruction_fallback) @
        user_message_before_diff @ take 30000 pr_diff @ user_message_before_files @
        (if c \<noteq> [] then take 20000 c else files_fallback) @ user_message_tail \<and>
      length (take 30000 pr_diff) = 30000) \<and>
   (20000 < length changed_files \<longrightarrow>
      user_message n i d changed_files =
        user_message_head @ n @ user_message_after_number @
        (if i \<noteq> [] then i else instruction_fallback) @
        user_message_before_diff @
        (if d \<noteq> [] then take 30000 d else diff_fallback) @ user_message_before_files @
        take 20000 changed_files @ user_message_tail \<and>
      length (take 20000 changed_files) = 20000)"
proof (intro conjI impI)
  assume "50000 < length knowledge"
  then have "knowledge \<noteq> []" by auto
  then show "system_prompt knowledge =
      system_prompt_head @ take 50000 knowledge @ system_prompt_tail"
    by (simp add: system_prompt_def)
next
  assume "50000 < length knowledge"
  then show "length (take 50000 knowledge) = 50000" by simp
next
  assume "30000 < length pr_diff"
  then have "pr_diff \<noteq> []" by auto
  then show "user_message n i pr_diff c =
      user_message_head @ n @ user_message_after_number @
      (if i \<noteq> [] then i else instruction_fallback) @
      user_message_before_diff @ take 30000 pr_diff @ user_message_before_files @
      (if c \<noteq> [] then take 20000 c else files_fallback) @ user_message_tail"
    by (simp add: user_message_def)
next
  assume "30000 < length pr_diff"
  then show "length (take 30000 pr_diff) = 30000" by simp
next
  assume "20000 < length changed_files"
  then have "changed_files \<noteq> []" by auto
  then show "user_message n i d changed_files =
      user_message_head @ n @ user_message_after_number @
      (if i \<noteq> [] then i else instruction_fallback) @
      user_message_before_diff @
      (if d \<noteq> [] then take 30000 d else diff_fallback) @ user_message_before_files @
      take 20000 changed_files @ user_message_tail"
    by (simp add: user_message_def)
next
  assume "20000 < length changed_files"
  then show "length (take 20000 changed_files) = 20000" by simp
qed

theorem truncation_limits_witness:
  "50000 < length (replicate 50001 (97::nat)) \<and>
   system_prompt (replicate 50001 97) =
     system_prompt_head @ replicate 50000 97 @ system_prompt_tail \<and>
   30000 < length (replicate 30005 (98::nat)) \<and>
   user_message (asc ''7'') [] (replicate 30005 98) [] =
     user_message_head @ asc ''7'' @ user_message_after_number @ instruction_fallback @
     user_message_before_diff @ replicate 30000 98 @ user_message_before_files @
     files_fallback @ user_message_tail \<and>
   20000 < length (replicate 20001 (99::nat)) \<and>
   user_message (asc ''7'') [] [] (replicate 20001 99) =
     user_message_head @ asc ''7'' @ user_message_after_number @ instruction_fallback @
     user_message_before_diff @ diff_fallback @ user_message_before_files @
     replicate 20000 99 @ user_message_tail"
  using truncation_limits [of "replicate 50001 97" "replicate 30005 98" "asc ''7''" "[]" "[]"
      "replicate 20001 99" "[]"]
  by simp

text \<open>
  C5. When the model invocation raises, the run writes to the result path the error
  document, which contains the text of the exception between two fixed parts, and the
  process exits with status 1.
\<close>

theorem invocation_error_document:
  assumes "environ w (asc ''ANTHROPIC_API_KEY'') = Some k" and "k \<noteq> []"
      and "load_pr_diff w = Inr d"
      and "load_changed_files_content w = Inr c"
      and "messages_create w (review_request w d c) = Raised m"
  shows "writes (run_claude_review w) = [(result_file, error_head @ m @ error_tail)] \<and>
         exit_status (finish (run_claude_review w)) = 1"
  using assms by (simp add: run_claude_review_def no_api_key_def error_document_def)

theorem invocation_error_document_witness:
  "environ world_service_down (asc ''ANTHROPIC_API_KEY'') = Some (asc ''key'') \<and>
   asc ''key'' \<noteq> [] \<and>
   load_pr_diff world_service_down = Inr [] \<and>
   load_changed_files_content world_service_down = Inr [] \<and>
   messages_create world_service_down (review_request world_service_down [] []) =
     Raised (asc ''timeout'') \<and>
   writes (run_claude_review world_service_down) =
     [(result_file, error_head @ asc ''timeout'' @ error_tail)] \<and>
   exit_status (finish (run_claude_review world_service_down)) = 1"
proof -
  have k: "environ world_service_down (asc ''ANTHROPIC_API_KEY'') = Some (asc ''key'')"
    by (simp add: world_service_down_def asc_def)
  have n: "asc ''key'' \<noteq> []"
    by (simp add: asc_def)
  have d: "load_pr_diff world_service_down = Inr []"
    by (simp add: load_pr_diff_def path_exists_def world_service_down_def)
  have c: "load_changed_files_content world_service_down = Inr []"
    by (simp add: load_changed_files_content_def path_exists_def world_service_down_def)
  have m: "messages_create world_service_down (review_request world_service_down [] []) =
      Raised (asc ''timeout'')"
    by (simp add: world_service_down_def)
  from invocation_error_document [OF k n d c m] k n d c m show ?thesis by simp
qed

text \<open>
  C7. The knowledge text is the join, with the fixed separator, of one part for each
  priority file that was read, in the order of the fixed priority list, followed by one part
  for each matched pattern file that was read, in the order of the glob result.
\<close>

theorem knowledge_order:
  "load_ai_dev_kit_knowledge w =
     join knowledge_separator
       (map (\<lambda>p. priority_part p (text_strict w (path_join ai_dev_kit_path p)))
          (filter (\<lambda>p. readable_strict w (path_join ai_dev_kit_path p))
             [asc ''CLAUDE.md'', asc ''docs/AI_QUICK_RULES.md'',
              asc ''docs/AI_DEVELOPER_GUIDE.md'']) @
        (if path_exists w patterns_dir
         then map (\<lambda>f. pattern_part (basename f) (text_strict w f))
                (filter (readable_strict w) (glob w (path_join patterns_dir (asc ''*.md''))))
         else []))"
proof -
  have "knowledge_parts_of w =
      map (\<lambda>p. priority_part p (text_strict w (path_join ai_dev_kit_path p)))
        (filter (\<lambda>p. readable_strict w (path_join ai_dev_kit_path p)) priority_files) @
      (if path_exists w patterns_dir
       then map (\<lambda>f. pattern_part (basename f) (text_strict w f))
              (filter (readable_strict w) (glob w (path_join patterns_dir (asc ''*.md''))))
       else [])"
    by (simp add: knowledge_parts_of_def load_priority_parts load_patterns_parts)
  moreover have "load_ai_dev_kit_knowledge w = join knowledge_separator (knowledge_parts_of w)"
    by (simp add: load_ai_dev_kit_knowledge_def Let_def)
  ultimately show ?thesis
    by (simp only: priority_files_def)
qed

theorem knowledge_order_witness:
  "load_ai_dev_kit_knowledge world_kit =
     asc ''## CLAUDE.md'' @ [10, 10] @ asc ''A'' @ [10] @
     [10] @ asc ''---'' @ [10] @
     asc ''## docs/AI_DEVELOPER_GUIDE.md'' @ [10, 10] @ asc ''C'' @ [10] @
     [10] @ asc ''---'' @ [10] @
     asc ''## Pattern: p.md'' @ [10, 10] @ asc ''P'' @ [10]"
  using knowledge_order [of world_kit]
  by (simp add: world_kit_def readable_strict_def text_strict_def read_strict_def
      path_exists_def path_join_def ai_dev_kit_path_def patterns_dir_def startswith_def
      endswith_def basename_def priority_part_def pattern_part_def knowledge_separator_def
      asc_def)

text \<open>
  C8. When none of the priority files exists and no file matched by the pattern exists, the
  knowledge text is empty, and the system prompt carries the fallback sentence in its place.
\<close>

theorem no_knowledge_fallback:
  assumes "\<forall>p \<in> set priority_files. file_at w (path_join ai_dev_kit_path p) = Absent"
      and "\<forall>f \<in> set (glob w (path_join patterns_dir (asc ''*.md''))). file_at w f = Absent"
  shows "load_ai_dev_kit_knowledge w = [] \<and>
         system_prompt (load_ai_dev_kit_knowledge w) =
           system_prompt_head @ knowledge_fallback @ system_prompt_tail"
proof -
  from assms(1) have "filter (\<lambda>p. readable_strict w (path_join ai_dev_kit_path p)) priority_files = []"
    by (simp add: filter_empty_conv readable_strict_def read_strict_def)
  moreover from assms(2) have
    "filter (readable_strict w) (glob w (path_join patterns_dir (asc ''*.md''))) = []"
    by (simp add: filter_empty_conv readable_strict_def read_strict_def)
  ultimately have "knowledge_parts_of w = []"
    by (simp add: knowledge_parts_of_def load_priority_parts load_patterns_parts)
  then have "load_ai_dev_kit_knowledge w = []"
    by (simp add: load_ai_dev_kit_knowledge_def Let_def)
  then show ?thesis
    by (simp add: system_prompt_def)
qed

theorem no_knowledge_fallback_witness:
  "file_at world_service_down (path_join ai_dev_kit_path (asc ''CLAUDE.md'')) = Absent \<and>
   glob world_service_down (path_join patterns_dir (asc ''*.md'')) = [] \<and>
   load_ai_dev_kit_knowledge world_service_down = [] \<and>
   system_prompt (load_ai_dev_kit_knowledge world_service_down) =
     system_prompt_head @ knowledge_fallback @ system_prompt_tail"
proof -
  have a: "\<forall>p \<in> set priority_files.
      file_at world_service_down (path_join ai_dev_kit_path p) = Absent"
    by (simp add: world_service_down_def)
  have b: "\<forall>f \<in> set (glob world_service_down (path_join patterns_dir (asc ''*.md''))).
      file_at world_service_down f = Absent"
    by (simp add: world_service_down_def)
  have f: "file_at world_service_down (path_join ai_dev_kit_path (asc ''CLAUDE.md'')) = Absent"
    by (simp add: world_service_down_def)
  have g: "glob world_service_down (path_join patterns_dir (asc ''*.md'')) = []"
    by (simp add: world_service_down_def)
  from no_knowledge_fallback [OF a b] f g show ?thesis by blast
qed

text \<open>
  C6. The changed-file text holds one block for each listed path that starts with
  \<open>games/\<close>, ends with \<open>.lua\<close>, \<open>.json\<close> or \<open>.md\<close>, and exists and can be read, and for no
  other path; the blocks are in the order of the list; the listed paths are the lines of
  the list file with surrounding white space removed, blank lines left out; the text is
  empty when the list file is absent and when no listed path qualifies.
\<close>

theorem changed_files_selection:
  "(file_at w files_list = Absent \<longrightarrow> load_changed_files_content w = Inr []) \<and>
   (file_at w files_list = Content text \<longrightarrow>
      load_changed_files_content w =
        Inr (join [10]
          (map (\<lambda>p. file_block p (text_lenient w p))
             (filter (\<lambda>p. startswith p (asc ''games/'') \<and>
                          (endswith p (asc ''.lua'') \<or> endswith p (asc ''.json'') \<or>
                           endswith p (asc ''.md'')) \<and>
                          readable_lenient w p)
                (filter (\<lambda>l. l \<noteq> []) (map strip (file_lines text))))))) \<and>
   (file_at w files_list = Content text \<and>
    (\<forall>p \<in> set (filter (\<lambda>l. l \<noteq> []) (map strip (file_lines text))).
       \<not> (startswith p (asc ''games/'') \<and>
          (endswith p (asc ''.lua'') \<or> endswith p (asc ''.json'') \<or>
           endswith p (asc ''.md'')) \<and>
          readable_lenient w p)) \<longrightarrow>
      load_changed_files_content w = Inr [])"
proof -
  let ?listed = "filter (\<lambda>l. l \<noteq> []) (map strip (file_lines text))"
  let ?q = "\<lambda>p. startswith p (asc ''games/'') \<and>
                (endswith p (asc ''.lua'') \<or> endswith p (asc ''.json'') \<or>
                 endswith p (asc ''.md'')) \<and>
                readable_lenient w p"
  have q: "(\<lambda>p. game_file p \<and> readable_lenient w p) = ?q"
    by (auto simp: game_file_def)
  have absent: "file_at w files_list = Absent \<Longrightarrow> load_changed_files_content w = Inr []"
    by (simp add: load_changed_files_content_def path_exists_def)
  have present: "load_changed_files_content w =
      Inr (join [10] (map (\<lambda>p. file_block p (text_lenient w p)) (filter ?q ?listed)))"
    if "file_at w files_list = Content text"
    using that
    by (simp add: load_changed_files_content_def path_exists_def read_strict_def
        read_changed_blocks listed_files_trimmed q)
  have none: "load_changed_files_content w = Inr []"
    if c: "file_at w files_list = Content text" and n: "\<forall>p \<in> set ?listed. \<not> ?q p"
  proof -
    from n have "filter ?q ?listed = []"
      by (simp only: filter_empty_conv)
    with present [OF c] show ?thesis by simp
  qed
  from absent present none show ?thesis by blast
qed

theorem changed_files_selection_witness:
  "file_at world_games files_list =
     Content (asc ''games/a.lua'' @ [10, 10] @ asc '' README.md '' @ [10] @
              asc ''games/b.txt'' @ [10] @ asc ''games/d.md'' @ [10] @ asc ''games/c.json'') \<and>
   load_changed_files_content world_games =
     Inr (asc ''### games/a.lua'' @ [10] @ asc ''```'' @ [10] @ asc ''x=1'' @ [10] @
          asc ''```'' @ [10] @
          [10] @
          asc ''### games/c.json'' @ [10] @ asc ''```'' @ [10] @ asc ''{}'' @ [10] @
          asc ''```'' @ [10])"
proof -
  have f: "file_at world_games files_list =
     Content (asc ''games/a.lua'' @ [10, 10] @ asc '' README.md '' @ [10] @
              asc ''games/b.txt'' @ [10] @ asc ''games/d.md'' @ [10] @ asc ''games/c.json'')"
    by (simp add: world_games_def)
  have l: "filter (\<lambda>l. l \<noteq> [])
      (map strip (file_lines (asc ''games/a.lua'' @ [10, 10] @ asc '' README.md '' @ [10] @
              asc ''games/b.txt'' @ [10] @ asc ''games/d.md'' @ [10] @ asc ''games/c.json''))) =
     [asc ''games/a.lua'', asc ''README.md'', asc ''games/b.txt'', asc ''games/d.md'',
      asc ''games/c.json'']"
    by (simp add: asc_def strip_def lstrip_def rstrip_def isspace_def)
  from changed_files_selection [of world_games
      "asc ''games/a.lua'' @ [10, 10] @ asc '' README.md '' @ [10] @
       asc ''games/b.txt'' @ [10] @ asc ''games/d.md'' @ [10] @ asc ''games/c.json''"] f
  have "load_changed_files_content world_games =
        Inr (join [10]
          (map (\<lambda>p. file_block p (text_lenient world_games p))
             (filter (\<lambda>p. startswith p (asc ''games/'') \<and>
                          (endswith p (asc ''.lua'') \<or> endswith p (asc ''.json'') \<or>
                           endswith p (asc ''.md'')) \<and>
                          readable_lenient world_games p)
                [asc ''games/a.lua'', asc ''README.md'', asc ''games/b.txt'',
                 asc ''games/d.md'', asc ''games/c.json''])))"
    by (simp only: l)
  then have "load_changed_files_content world_games =
     Inr (asc ''### games/a.lua'' @ [10] @ asc ''```'' @ [10] @ asc ''x=1'' @ [10] @
          asc ''```'' @ [10] @
          [10] @
          asc ''### games/c.json'' @ [10] @ asc ''```'' @ [10] @ asc ''{}'' @ [10] @
          asc ''```'' @ [10])"
    by (simp add: world_games_def files_list_def readable_lenient_def text_lenient_def
        read_lenient_def startswith_def endswith_def file_block_def asc_def)
  with f show ?thesis by blast
qed

text \<open>
  C9. With the credential set and the diff and changed-file loaders returning, the run sends
  exactly one request to the model whatever the comment body is; when the body does not
  contain the keyword, the user message of that request carries the fallback sentence where
  the instruction would stand. The keyword decides the instruction only.
\<close>

theorem review_without_keyword:
  assumes "environ w (asc ''ANTHROPIC_API_KEY'') = Some k" and "k \<noteq> []"
      and "load_pr_diff w = Inr d"
      and "load_changed_files_content w = Inr c"
  shows "requests (run_claude_review w) = [review_request w d c] \<and>
         system (review_request w d c) = system_prompt (load_ai_dev_kit_knowledge w) \<and>
         (\<not> contains (lower (environ_get w (asc ''COMMENT_BODY'') [])) keyword \<longrightarrow>
            user_content (review_request w d c) =
              user_message_head @ environ_get w (asc ''PR_NUMBER'') (asc ''unknown'') @
              user_message_after_number @ instruction_fallback @
              user_message_before_diff @
              (if d \<noteq> [] then take 30000 d else diff_fallback) @
              user_message_before_files @
              (if c \<noteq> [] then take 20000 c else files_fallback) @
              user_message_tail)"
proof (intro conjI impI)
  show "requests (run_claude_review w) = [review_request w d c]"
    using assms
    by (simp add: run_claude_review_def no_api_key_def Let_def split: api_result.split)
next
  show "system (review_request w d c) = system_prompt (load_ai_dev_kit_knowledge w)"
    by (simp add: review_request_def)
next
  assume "\<not> contains (lower (environ_get w (asc ''COMMENT_BODY'') [])) keyword"
  then have "extract_instruction (environ_get w (asc ''COMMENT_BODY'') []) = []"
    by (rule extract_instruction_no_keyword)
  then show "user_content (review_request w d c) =
      user_message_head @ environ_get w (asc ''PR_NUMBER'') (asc ''unknown'') @
      user_message_after_number @ instruction_fallback @
      user_message_before_diff @
      (if d \<noteq> [] then take 30000 d else diff_fallback) @
      user_message_before_files @
      (if c \<noteq> [] then take 20000 c else files_fallback) @
      user_message_tail"
    by (simp add: review_request_def user_message_def)
qed

theorem review_without_keyword_witness:
  "environ world_service_down (asc ''ANTHROPIC_API_KEY'') = Some (asc ''key'') \<and>
   asc ''key'' \<noteq> [] \<and>
   load_pr_diff world_service_down = Inr [] \<and>
   load_changed_files_content world_service_down = Inr [] \<and>
   \<not> contains (lower (environ_get world_service_down (asc ''COMMENT_BODY'') [])) keyword \<and>
   requests (run_claude_review world_service_down) =
     [review_request world_service_down [] []] \<and>
   user_content (review_request world_service_down [] []) =
     user_message_head @ asc ''unknown'' @ user_message_after_number @
     instruction_fallback @ user_message_before_diff @ diff_fallback @
     user_message_before_files @ files_fallback @ user_message_tail"
proof -
  have k: "environ world_service_down (asc ''ANTHROPIC_API_KEY'') = Some (asc ''key'')"
    by (simp add: world_service_down_def asc_def)
  have n: "asc ''key'' \<noteq> []"
    by (simp add: asc_def)
  have d: "load_pr_diff world_service_down = Inr []"
    by (simp add: load_pr_diff_def path_exists_def world_service_down_def)
  have c: "load_changed_files_content world_service_down = Inr []"
    by (simp add: load_changed_files_content_def path_exists_def world_service_down_def)
  have b: "\<not> contains (lower (environ_get world_service_down (asc ''COMMENT_BODY'') [])) keyword"
    by (simp add: world_service_down_def environ_get_def asc_def lower_def lower_cp_def
        contains_def keyword_def startswith_def)
  have p: "environ_get world_service_down (asc ''PR_NUMBER'') (asc ''unknown'') = asc ''unknown''"
    by (simp add: world_service_down_def environ_get_def asc_def)
  from review_without_keyword [OF k n d c] b p
  have "requests (run_claude_review world_service_down) =
     [review_request world_service_down [] []] \<and>
   user_content (review_request world_service_down [] []) =
     user_message_head @ asc ''unknown'' @ user_message_after_number @
     instruction_fallback @ user_message_before_diff @ diff_fallback @
     user_message_before_files @ files_fallback @ user_message_tail"
    by simp
  with k n d c b show ?thesis by blast
qed

end
